theory Spec2Isabelle
  imports Main "HOL-Library.Word" "HOL-Library.Signed_Division"
begin

section \<open>libtiutils/Semaphore.cpp: a counting semaphore over the POSIX primitive\<close>

text \<open>
  The class \<^verbatim>\<open>android::Semaphore\<close> has one field, the pointer \<^verbatim>\<open>mSemaphore\<close> to a
  heap-allocated \<^verbatim>\<open>sem_t\<close>, and five methods that check the pointer and then call the
  POSIX primitive (\<^verbatim>\<open>sem_init\<close>, \<^verbatim>\<open>sem_wait\<close>, \<^verbatim>\<open>sem_post\<close>, \<^verbatim>\<open>sem_getvalue\<close>,
  \<^verbatim>\<open>sem_timedwait\<close>). The methods are modelled as functions that take the object and the
  state of the process (the allocator, the semaphores in memory, the clock and a log of the
  native calls made) and return the result together with the new state.
\<close>

subsection \<open>Machine integers and status codes\<close>

text \<open>
  \<^verbatim>\<open>int\<close> is 32 bits wide; \<^verbatim>\<open>status_t\<close> is Android's \<^verbatim>\<open>int32_t\<close>. On the 32-bit ARM
  target \<^verbatim>\<open>time_t\<close> and \<^verbatim>\<open>long\<close>, the types of the two fields of \<^verbatim>\<open>struct timespec\<close>, are
  32 bits wide as well. A value is read as a signed number with \<open>sint\<close>.
\<close>

type_synonym c_int = "32 word"
type_synonym c_uint = "32 word"
type_synonym c_long = "32 word"
type_synonym status_t = "32 word"

text \<open>
  The three status codes the file names, with the values of Android's
  \<^verbatim>\<open>utils/Errors.h\<close>: \<^verbatim>\<open>NO_ERROR = 0\<close>, \<^verbatim>\<open>NO_MEMORY = -ENOMEM\<close>, \<^verbatim>\<open>BAD_VALUE = -EINVAL\<close>.
\<close>

definition NO_ERROR :: status_t where
  "NO_ERROR = 0"

definition NO_MEMORY :: status_t where
  "NO_MEMORY = - 12"

definition BAD_VALUE :: status_t where
  "BAD_VALUE = - 22"

text \<open>
  The quotient of C's \<^verbatim>\<open>/\<close> on \<^verbatim>\<open>int\<close>: the signed values are divided with truncation
  towards zero (\<open>sdiv\<close> on \<open>int\<close>) and the result is stored in 32 bits.
\<close>

definition c_div :: "c_int \<Rightarrow> c_int \<Rightarrow> c_int" where
  "c_div a b = word_of_int (sint a sdiv sint b)"

subsection \<open>The process state and the native primitives\<close>

text \<open>
  A block of memory returned by \<^verbatim>\<open>malloc(sizeof(sem_t))\<close> is \<open>Raw\<close> until \<^verbatim>\<open>sem_init\<close>
  succeeds on it; from then on it is a semaphore \<open>Sem v\<close> with the value \<open>v\<close>.
  A pointer is an address, or \<open>None\<close> for \<^verbatim>\<open>NULL\<close>.
\<close>

type_synonym addr = nat

datatype sem_t = Raw | Sem nat

record timespec =
  tv_sec :: c_long
  tv_nsec :: c_long

datatype native_call =
    CallMalloc
  | CallFree addr
  | CallSemInit addr c_int c_uint
  | CallSemDestroy addr
  | CallSemWait addr
  | CallSemPost addr
  | CallSemGetValue addr
  | CallSemTimedWait addr timespec

text \<open>
  \<open>heap\<close> holds the allocated blocks, \<open>garbage a\<close> is the count that the bits of the
  block at \<open>a\<close> read as while \<^verbatim>\<open>sem_init\<close> has not succeeded on it (\<^verbatim>\<open>malloc\<close> does not
  clear memory), \<open>next_addr\<close> is the address the next successful
  \<^verbatim>\<open>malloc\<close> returns, \<open>mem_avail\<close> the number of blocks that can still be allocated,
  \<open>sem_value_max\<close> the platform's \<^verbatim>\<open>SEM_VALUE_MAX\<close> (\<^verbatim>\<open>0x3fffffff\<close> in Android's C library),
  \<open>clock\<close> the time of \<^verbatim>\<open>CLOCK_REALTIME\<close> in nanoseconds since the Epoch, and \<open>trace\<close>
  the native calls made so far, oldest first.
\<close>

record world =
  heap :: "addr \<rightharpoonup> sem_t"
  garbage :: "addr \<Rightarrow> nat"
  next_addr :: addr
  mem_avail :: nat
  sem_value_max :: nat
  clock :: int
  trace :: "native_call list"

definition called :: "native_call \<Rightarrow> world \<Rightarrow> world" where
  "called c w = w\<lparr>trace := trace w @ [c]\<rparr>"

text \<open>
  The primitives follow POSIX, for one thread running alone. Each returns 0 on success and
  -1 on failure (the cause goes to \<^verbatim>\<open>errno\<close>, which Semaphore.cpp never reads and the
  model leaves out). A \<^verbatim>\<open>sem_t\<close> is a counter with no mark that says it was initialized:
  on a \<open>Raw\<close> block \<^verbatim>\<open>sem_wait\<close>, \<^verbatim>\<open>sem_post\<close>, \<^verbatim>\<open>sem_getvalue\<close> and \<^verbatim>\<open>sem_timedwait\<close>
  cannot tell, and act on the count its bits read as, \<open>garbage\<close>. A pointer to memory
  that is not allocated is never passed by the class; the model answers -1 there.
\<close>

definition malloc :: "world \<Rightarrow> addr option \<times> world" where
  "malloc w =
     (if mem_avail w = 0 then (None, called CallMalloc w)
      else (Some (next_addr w),
            called CallMalloc
              (w\<lparr>heap := (heap w)(next_addr w \<mapsto> Raw),
                 next_addr := Suc (next_addr w),
                 mem_avail := mem_avail w - 1\<rparr>)))"

definition free :: "addr \<Rightarrow> world \<Rightarrow> world" where
  "free a w =
     (case heap w a of
        None \<Rightarrow> called (CallFree a) w
      | Some _ \<Rightarrow> called (CallFree a) (w\<lparr>heap := (heap w)(a := None), mem_avail := Suc (mem_avail w)\<rparr>))"

text \<open>\<^verbatim>\<open>sem_init\<close> fails when the initial value exceeds \<^verbatim>\<open>SEM_VALUE_MAX\<close>.\<close>

definition sem_init :: "addr \<Rightarrow> c_int \<Rightarrow> c_uint \<Rightarrow> world \<Rightarrow> c_int \<times> world" where
  "sem_init a pshared v w =
     (case heap w a of
        None \<Rightarrow> (- 1, called (CallSemInit a pshared v) w)
      | Some _ \<Rightarrow>
          if sem_value_max w < unat v then (- 1, called (CallSemInit a pshared v) w)
          else (0, called (CallSemInit a pshared v) (w\<lparr>heap := (heap w)(a \<mapsto> Sem (unat v))\<rparr>)))"

definition sem_destroy :: "addr \<Rightarrow> world \<Rightarrow> c_int \<times> world" where
  "sem_destroy a w =
     (case heap w a of
        Some (Sem v) \<Rightarrow>
          (0, called (CallSemDestroy a) (w\<lparr>heap := (heap w)(a \<mapsto> Raw), garbage := (garbage w)(a := v)\<rparr>))
      | Some Raw \<Rightarrow> (0, called (CallSemDestroy a) w)
      | None \<Rightarrow> (- 1, called (CallSemDestroy a) w))"

text \<open>
  \<^verbatim>\<open>sem_wait\<close> on a semaphore whose value is 0 blocks until another thread posts. With
  one thread alone it never returns: the result is \<open>None\<close>.
\<close>

definition sem_wait :: "addr \<Rightarrow> world \<Rightarrow> (c_int \<times> world) option" where
  "sem_wait a w =
     (case heap w a of
        Some (Sem v) \<Rightarrow>
          if v = 0 then None
          else Some (0, called (CallSemWait a) (w\<lparr>heap := (heap w)(a \<mapsto> Sem (v - 1))\<rparr>))
      | Some Raw \<Rightarrow>
          if garbage w a = 0 then None
          else Some (0, called (CallSemWait a) (w\<lparr>garbage := (garbage w)(a := garbage w a - 1)\<rparr>))
      | None \<Rightarrow> Some (- 1, called (CallSemWait a) w))"

definition sem_post :: "addr \<Rightarrow> world \<Rightarrow> c_int \<times> world" where
  "sem_post a w =
     (case heap w a of
        Some (Sem v) \<Rightarrow>
          if sem_value_max w \<le> v then (- 1, called (CallSemPost a) w)
          else (0, called (CallSemPost a) (w\<lparr>heap := (heap w)(a \<mapsto> Sem (Suc v))\<rparr>))
      | Some Raw \<Rightarrow>
          if sem_value_max w \<le> garbage w a then (- 1, called (CallSemPost a) w)
          else (0, called (CallSemPost a) (w\<lparr>garbage := (garbage w)(a := Suc (garbage w a))\<rparr>))
      | None \<Rightarrow> (- 1, called (CallSemPost a) w))"

text \<open>
  \<^verbatim>\<open>sem_getvalue(sem, &val)\<close> stores the value in \<open>val\<close> on success and leaves \<open>val\<close>
  as it was on failure: the second component of the result is the new content of \<open>val\<close>.
\<close>

definition sem_getvalue :: "addr \<Rightarrow> c_int \<Rightarrow> world \<Rightarrow> c_int \<times> c_int \<times> world" where
  "sem_getvalue a val w =
     (case heap w a of
        Some (Sem v) \<Rightarrow> (0, word_of_nat v, called (CallSemGetValue a) w)
      | Some Raw \<Rightarrow> (0, word_of_nat (garbage w a), called (CallSemGetValue a) w)
      | None \<Rightarrow> (- 1, val, called (CallSemGetValue a) w))"

text \<open>
  \<^verbatim>\<open>sem_timedwait(sem, abs_timeout)\<close> takes an absolute time of \<^verbatim>\<open>CLOCK_REALTIME\<close>,
  seconds and nanoseconds since the Epoch. When the value is positive it is decremented
  at once. Otherwise a nanoseconds field outside \<open>[0, 10\<^sup>9)\<close> is an error, and with one
  thread alone the call times out: it returns -1 once the clock has reached the deadline,
  at once when the deadline has passed already.
\<close>

definition deadline_ns :: "timespec \<Rightarrow> int" where
  "deadline_ns ts = sint (tv_sec ts) * 1000000000 + sint (tv_nsec ts)"

definition sem_timedwait :: "addr \<Rightarrow> timespec \<Rightarrow> world \<Rightarrow> c_int \<times> world" where
  "sem_timedwait a ts w =
     (case heap w a of
        Some (Sem v) \<Rightarrow>
          if 0 < v then (0, called (CallSemTimedWait a ts) (w\<lparr>heap := (heap w)(a \<mapsto> Sem (v - 1))\<rparr>))
          else if sint (tv_nsec ts) < 0 \<or> 1000000000 \<le> sint (tv_nsec ts)
            then (- 1, called (CallSemTimedWait a ts) w)
          else (- 1, called (CallSemTimedWait a ts) (w\<lparr>clock := max (clock w) (deadline_ns ts)\<rparr>))
      | Some Raw \<Rightarrow>
          if 0 < garbage w a
            then (0, called (CallSemTimedWait a ts) (w\<lparr>garbage := (garbage w)(a := garbage w a - 1)\<rparr>))
          else if sint (tv_nsec ts) < 0 \<or> 1000000000 \<le> sint (tv_nsec ts)
            then (- 1, called (CallSemTimedWait a ts) w)
          else (- 1, called (CallSemTimedWait a ts) (w\<lparr>clock := max (clock w) (deadline_ns ts)\<rparr>))
      | None \<Rightarrow> (- 1, called (CallSemTimedWait a ts) w))"

subsection \<open>The class\<close>

record Semaphore =
  mSemaphore :: "addr option"

text \<open>\<^verbatim>\<open>Semaphore::Semaphore()\<close>: the pointer starts as \<^verbatim>\<open>NULL\<close>.\<close>

definition Semaphore_ctor :: Semaphore where
  "Semaphore_ctor = \<lparr>mSemaphore = None\<rparr>"

text \<open>\<^verbatim>\<open>Semaphore::~Semaphore()\<close>: destroys and frees only when the pointer is set.\<close>

definition Semaphore_dtor :: "Semaphore \<Rightarrow> world \<Rightarrow> world" where
  "Semaphore_dtor this w =
     (case mSemaphore this of
        None \<Rightarrow> w
      | Some a \<Rightarrow> free a (snd (sem_destroy a w)))"

text \<open>
  \<^verbatim>\<open>ErrorUtils::posixToAndroidError\<close> lives in ErrorUtils.cpp, which is not part of the
  file under study; every method takes it as the parameter \<open>posixToAndroidError\<close>.
\<close>

text \<open>
  \<^verbatim>\<open>status_t Semaphore::Create(int count)\<close>. The pointer is assigned before it is tested,
  and the result of \<^verbatim>\<open>sem_init\<close> is translated and returned with nothing else done.
\<close>

definition Create ::
  "(c_int \<Rightarrow> status_t) \<Rightarrow> c_int \<Rightarrow> Semaphore \<Rightarrow> world \<Rightarrow> status_t \<times> Semaphore \<times> world" where
  "Create posixToAndroidError count this w =
     (if count <s 0 then (BAD_VALUE, this, w)
      else
        (case malloc w of
           (None, w1) \<Rightarrow> (NO_MEMORY, this\<lparr>mSemaphore := None\<rparr>, w1)
         | (Some a, w1) \<Rightarrow>
             (case sem_init a 0 count w1 of
                (rc, w2) \<Rightarrow> (posixToAndroidError rc, this\<lparr>mSemaphore := Some a\<rparr>, w2))))"

text \<open>\<^verbatim>\<open>status_t Semaphore::Wait()\<close>; \<open>None\<close> when the call never returns.\<close>

definition Wait ::
  "(c_int \<Rightarrow> status_t) \<Rightarrow> Semaphore \<Rightarrow> world \<Rightarrow> (status_t \<times> world) option" where
  "Wait posixToAndroidError this w =
     (case mSemaphore this of
        None \<Rightarrow> Some (BAD_VALUE, w)
      | Some a \<Rightarrow>
          (case sem_wait a w of
             None \<Rightarrow> None
           | Some (rc, w1) \<Rightarrow> Some (posixToAndroidError rc, w1)))"

text \<open>\<^verbatim>\<open>status_t Semaphore::Signal()\<close>.\<close>

definition Signal ::
  "(c_int \<Rightarrow> status_t) \<Rightarrow> Semaphore \<Rightarrow> world \<Rightarrow> status_t \<times> world" where
  "Signal posixToAndroidError this w =
     (case mSemaphore this of
        None \<Rightarrow> (BAD_VALUE, w)
      | Some a \<Rightarrow>
          (case sem_post a w of
             (rc, w1) \<Rightarrow> (posixToAndroidError rc, w1)))"

text \<open>
  \<^verbatim>\<open>int Semaphore::Count()\<close>. The local \<^verbatim>\<open>int val;\<close> is declared without a value: the
  argument \<open>val\<close> is whatever it holds at entry. The result of \<^verbatim>\<open>sem_getvalue\<close> is dropped.
\<close>

definition Count :: "c_int \<Rightarrow> Semaphore \<Rightarrow> world \<Rightarrow> c_int \<times> world" where
  "Count val this w =
     (case mSemaphore this of
        None \<Rightarrow> (BAD_VALUE, w)
      | Some a \<Rightarrow>
          (case sem_getvalue a val w of
             (rc, val1, w1) \<Rightarrow> (val1, w1)))"

text \<open>
  \<^verbatim>\<open>status_t Semaphore::WaitTimeout(int timeoutMicroSecs)\<close>. The two fields are computed
  from the argument alone, in 32-bit arithmetic, and the \<^verbatim>\<open>timespec\<close> goes to
  \<^verbatim>\<open>sem_timedwait\<close> as it is.
\<close>

definition WaitTimeout ::
  "(c_int \<Rightarrow> status_t) \<Rightarrow> c_int \<Rightarrow> Semaphore \<Rightarrow> world \<Rightarrow> status_t \<times> world" where
  "WaitTimeout posixToAndroidError timeoutMicroSecs this w =
     (case mSemaphore this of
        None \<Rightarrow> (BAD_VALUE, w)
      | Some a \<Rightarrow>
          (let sec = c_div timeoutMicroSecs 1000000;
               timeSpec = \<lparr>tv_sec = sec, tv_nsec = (timeoutMicroSecs - sec * 1000000) * 1000\<rparr>
           in case sem_timedwait a timeSpec w of
                (rc, w1) \<Rightarrow> (posixToAndroidError rc, w1)))"

subsection \<open>States of the object\<close>

text \<open>
  The object is in one of the two intended states when the pointer is \<^verbatim>\<open>NULL\<close>, or
  points to a block on which \<^verbatim>\<open>sem_init\<close> has succeeded.
\<close>

definition absent_or_ready :: "Semaphore \<Rightarrow> world \<Rightarrow> bool" where
  "absent_or_ready this w =
     (case mSemaphore this of
        None \<Rightarrow> True
      | Some a \<Rightarrow> (case heap w a of Some (Sem v) \<Rightarrow> True | _ \<Rightarrow> False))"

text \<open>
  A process state for the examples: nothing allocated yet, free memory all zero bits
  (fresh pages), room for 16 blocks, the
  \<^verbatim>\<open>SEM_VALUE_MAX\<close> of Android's C library, the clock at 1 700 000 000 s after the Epoch.
\<close>

definition world0 :: world where
  "world0 = \<lparr>heap = Map.empty, garbage = (\<lambda>a. 0), next_addr = 1, mem_avail = 16,
             sem_value_max = 1073741823,
             clock = 1700000000000000000, trace = []\<rparr>"

section \<open>Properties\<close>

lemmas native_defs = malloc_def sem_init_def sem_wait_def sem_post_def sem_getvalue_def
  sem_timedwait_def called_def

subsection \<open>Status codes\<close>


lemma BAD_VALUE_neq_NO_ERROR: "BAD_VALUE \<noteq> NO_ERROR"
  by (simp add: BAD_VALUE_def NO_ERROR_def)

subsection \<open>The methods check the pointer first\<close>

text \<open>
  While \<open>mSemaphore\<close> is \<^verbatim>\<open>NULL\<close>, \<open>Wait\<close>, \<open>Signal\<close> and \<open>WaitTimeout\<close> all return
  \<open>BAD_VALUE\<close>; they return (\<open>Wait\<close> does not block) and the process state, the log of
  native calls included, is what it was.
\<close>

lemma not_created_is_BAD_VALUE:
  assumes "mSemaphore this = None"
  shows "Wait tr this w = Some (BAD_VALUE, w) \<and> Signal tr this w = (BAD_VALUE, w) \<and>
         WaitTimeout tr t this w = (BAD_VALUE, w)"
  using assms by (simp add: Wait_def Signal_def WaitTimeout_def)

text \<open>
  Once \<open>mSemaphore\<close> is set, whatever it points to, each method goes on to the native
  primitive: the call is the last entry of the log when the method returns.
\<close>

lemma Wait_handle_set:
  assumes "mSemaphore this = Some a" and "Wait tr this w = Some (st, w')"
  shows "trace w' = trace w @ [CallSemWait a]"
  using assms
  by (auto simp: Wait_def sem_wait_def called_def split: option.splits sem_t.splits if_splits)

lemma Signal_handle_set:
  assumes "mSemaphore this = Some a"
  shows "trace (snd (Signal tr this w)) = trace w @ [CallSemPost a]"
  using assms
  by (simp add: Signal_def sem_post_def called_def split: option.splits sem_t.splits)

lemma Count_handle_set:
  assumes "mSemaphore this = Some a"
  shows "trace (snd (Count val this w)) = trace w @ [CallSemGetValue a]"
  using assms
  by (simp add: Count_def sem_getvalue_def called_def split: option.splits sem_t.splits)

lemma WaitTimeout_handle_set:
  assumes "mSemaphore this = Some a"
  shows "\<exists>ts. trace (snd (WaitTimeout tr t this w)) = trace w @ [CallSemTimedWait a ts]"
  using assms
  by (simp add: WaitTimeout_def sem_timedwait_def called_def Let_def
      split: option.splits sem_t.splits)

text \<open>
  Claim C5. For a negative count (-1 for one) \<open>Create\<close> returns \<open>BAD_VALUE\<close> and changes
  neither the object nor the process state: nothing is allocated, no native call is made.
  An object that had no handle still has none, and \<open>Count\<close> on it then returns the
  sentinel \<open>BAD_VALUE\<close>.
\<close>

theorem Create_negative_count:
  assumes "count <s 0" and "mSemaphore this = None"
  shows "Create tr count this w = (BAD_VALUE, this, w) \<and> Count val this w = (BAD_VALUE, w)"
  using assms by (simp add: Create_def Count_def)

theorem Create_negative_count_witness:
  "(- 1 :: c_int) <s 0 \<and> mSemaphore Semaphore_ctor = None \<and>
   Create (\<lambda>rc. rc) (- 1) Semaphore_ctor world0 = (BAD_VALUE, Semaphore_ctor, world0) \<and>
   Count 0 Semaphore_ctor world0 = (BAD_VALUE, world0)"
  using Create_negative_count [of "- 1" Semaphore_ctor "\<lambda>rc. rc" world0 0]
  by (simp add: Semaphore_ctor_def)

subsection \<open>Create and the two states of the object\<close>


text \<open>The four other methods never touch the pointer and keep a semaphore a semaphore.\<close>

lemma Wait_keeps_state:
  assumes "absent_or_ready this w" and "Wait tr this w = Some (st, w')"
  shows "absent_or_ready this w'"
  using assms
  by (auto simp: absent_or_ready_def Wait_def sem_wait_def called_def
           split: option.splits sem_t.splits if_splits)

lemma Signal_keeps_state:
  assumes "absent_or_ready this w"
  shows "absent_or_ready this (snd (Signal tr this w))"
  using assms
  by (auto simp: absent_or_ready_def Signal_def sem_post_def called_def
           split: option.splits sem_t.splits)

lemma Count_keeps_state:
  assumes "absent_or_ready this w"
  shows "absent_or_ready this (snd (Count val this w))"
  using assms
  by (auto simp: absent_or_ready_def Count_def sem_getvalue_def called_def
           split: option.splits sem_t.splits)

lemma WaitTimeout_keeps_state:
  assumes "absent_or_ready this w"
  shows "absent_or_ready this (snd (WaitTimeout tr t this w))"
  using assms
  by (auto simp: absent_or_ready_def WaitTimeout_def sem_timedwait_def called_def Let_def
           split: option.splits sem_t.splits)

text \<open>
  Claim C4. On an object that is not ready, with no successfully created handle, \<open>Wait\<close>,
  \<open>Signal\<close> and \<open>WaitTimeout\<close> should return \<open>BAD_VALUE\<close> at once and call no native
  primitive. The code on the object that \<^verbatim>\<open>Create(0x40000000)\<close> leaves, where \<^verbatim>\<open>sem_init\<close>
  failed: the pointer is set, so each method passes its test and calls the primitive on
  the block that was never initialized. The bits of the block read as the count 0, so
  \<open>Wait\<close> never returns, \<open>Signal\<close> raises that count and reports what \<^verbatim>\<open>sem_post\<close> returned,
  and \<open>WaitTimeout\<close> reports the failure of \<^verbatim>\<open>sem_timedwait\<close>.
\<close>

theorem methods_after_failed_sem_init:
  "(case Create tr 1073741824 Semaphore_ctor world0 of
      (st, this', w') \<Rightarrow>
        Wait tr this' w' = None \<and>
        Signal tr this' w' =
          (tr 0, called (CallSemPost 1) (w'\<lparr>garbage := (garbage w')(1 := 1)\<rparr>)) \<and>
        WaitTimeout tr 1000 this' w' =
          (tr (- 1), called (CallSemTimedWait 1 \<lparr>tv_sec = 0, tv_nsec = 1000000\<rparr>) w'))"
  by (simp add: Create_def Wait_def Signal_def WaitTimeout_def native_defs world0_def
      Semaphore_ctor_def word_sless_alt c_div_def deadline_ns_def)

text \<open>
  Claim C2. When the allocation succeeds and \<^verbatim>\<open>sem_init\<close> fails, \<open>Create\<close> should return
  the translated error, leave the object without a handle and release the block before it
  returns. The code at \<^verbatim>\<open>Create(0x40000000)\<close>, a count above \<^verbatim>\<open>SEM_VALUE_MAX\<close>, on a new
  object: the translated error is returned, but \<open>mSemaphore\<close> points to the block, the
  block is still allocated and uninitialized, and the only native calls made are
  \<^verbatim>\<open>malloc\<close> and \<^verbatim>\<open>sem_init\<close>: nothing is freed.
\<close>

theorem Create_sem_init_failure_keeps_block:
  "(case Create tr 1073741824 Semaphore_ctor world0 of
      (st, this', w') \<Rightarrow>
        st = tr (- 1) \<and> mSemaphore this' = Some 1 \<and> heap w' 1 = Some Raw \<and>
        trace w' = [CallMalloc, CallSemInit 1 0 1073741824])"
  by (simp add: Create_def native_defs world0_def Semaphore_ctor_def word_sless_alt)

text \<open>
  Claim C3. Every state reached from the constructor should have the handle absent, or
  present and initialized. The constructor's state is such a state; the state after
  \<^verbatim>\<open>Create(0x40000000)\<close>, where \<^verbatim>\<open>sem_init\<close> fails, is not: the handle is present and
  was never initialized.
\<close>

theorem Create_breaks_absent_or_ready:
  "absent_or_ready Semaphore_ctor world0 \<and>
   (case Create tr 1073741824 Semaphore_ctor world0 of
      (st, this', w') \<Rightarrow> \<not> absent_or_ready this' w')"
  by (simp add: Create_def native_defs world0_def Semaphore_ctor_def absent_or_ready_def
      word_sless_alt)



subsection \<open>Wait and Signal in sequence\<close>

text \<open>
  Claim C7. One thread alone, with memory available and a translation that maps the
  return code 0 to \<open>NO_ERROR\<close>: \<open>Create(1)\<close> succeeds and the count is 1; \<open>Wait()\<close>
  succeeds and the count is 0; \<open>Signal()\<close> succeeds and the count is 1; \<open>Wait()\<close> succeeds
  again and the count is 0. The count is what \<open>Count()\<close> returns in that state.
\<close>

theorem Create_Wait_Signal_Wait:
  assumes "tr 0 = NO_ERROR" and "0 < mem_avail w" and "0 < sem_value_max w"
  shows "\<exists>this1 w1 w2 w3 w4.
     Create tr 1 this w = (NO_ERROR, this1, w1) \<and> fst (Count val this1 w1) = 1 \<and>
     Wait tr this1 w1 = Some (NO_ERROR, w2) \<and> fst (Count val this1 w2) = 0 \<and>
     Signal tr this1 w2 = (NO_ERROR, w3) \<and> fst (Count val this1 w3) = 1 \<and>
     Wait tr this1 w3 = Some (NO_ERROR, w4) \<and> fst (Count val this1 w4) = 0"
  using assms
  by (simp add: Create_def Wait_def Signal_def Count_def native_defs word_sless_alt)

theorem Create_Wait_Signal_Wait_witness:
  "(\<lambda>rc :: c_int. rc) 0 = NO_ERROR \<and> 0 < mem_avail world0 \<and> 0 < sem_value_max world0 \<and>
   (\<exists>this1 w1 w2 w3 w4.
     Create (\<lambda>rc. rc) 1 Semaphore_ctor world0 = (NO_ERROR, this1, w1) \<and>
     fst (Count 0 this1 w1) = 1 \<and>
     Wait (\<lambda>rc. rc) this1 w1 = Some (NO_ERROR, w2) \<and> fst (Count 0 this1 w2) = 0 \<and>
     Signal (\<lambda>rc. rc) this1 w2 = (NO_ERROR, w3) \<and> fst (Count 0 this1 w3) = 1 \<and>
     Wait (\<lambda>rc. rc) this1 w3 = Some (NO_ERROR, w4) \<and> fst (Count 0 this1 w4) = 0)"
  using Create_Wait_Signal_Wait [of "\<lambda>rc. rc" world0 Semaphore_ctor 0]
  by (simp add: world0_def NO_ERROR_def)

subsection \<open>Count\<close>

text \<open>
  While \<open>mSemaphore\<close> is \<^verbatim>\<open>NULL\<close>, \<open>Count()\<close> returns \<open>BAD_VALUE\<close> as a plain \<^verbatim>\<open>int\<close>, the
  type of every count it returns, and makes no native call. On a created semaphore it
  calls \<^verbatim>\<open>sem_getvalue\<close> and returns the value the semaphore has in the process state at
  that moment; the object itself stores no count.
\<close>

lemma Count_sentinel_or_live:
  "(mSemaphore this = None \<longrightarrow> Count val this w = (BAD_VALUE, w)) \<and>
   (mSemaphore this = Some a \<and> heap w a = Some (Sem v) \<longrightarrow>
      Count val this w = (word_of_nat v, called (CallSemGetValue a) w))"
  by (simp add: Count_def sem_getvalue_def)

text \<open>
  Claim C8. On an object that is not ready \<open>Count()\<close> should return the sentinel
  \<open>BAD_VALUE\<close>, and on a ready one the live value. The code on the object that
  \<^verbatim>\<open>Create(0x40000000)\<close> leaves, where \<^verbatim>\<open>sem_init\<close> failed: the pointer is set, so
  \<open>Count()\<close> calls \<^verbatim>\<open>sem_getvalue\<close> on the block that was never initialized and returns
  the count its bits read as, here 0 and not \<open>BAD_VALUE\<close>.
\<close>

theorem Count_after_failed_sem_init:
  "(case Create tr 1073741824 Semaphore_ctor world0 of
      (st, this', w') \<Rightarrow> Count val this' w' = (0, called (CallSemGetValue 1) w')) \<and>
   BAD_VALUE \<noteq> (0 :: c_int)"
  by (simp add: Create_def Count_def native_defs world0_def Semaphore_ctor_def word_sless_alt
      BAD_VALUE_def)

subsection \<open>The timespec of WaitTimeout\<close>

text \<open>Truncating division by a million, by the sign of the dividend.\<close>

lemma sdiv_million:
  "(k::int) sdiv 1000000 = (if 0 \<le> k then k div 1000000 else - ((- k) div 1000000))"
  by (simp add: signed_divide_int_def sgn_if)

lemma sdiv_million_split:
  fixes k :: int
  shows "\<exists>r. k = (k sdiv 1000000) * 1000000 + r \<and>
    (if 0 \<le> k then 0 \<le> k sdiv 1000000 \<and> 0 \<le> r \<and> r < 1000000
     else k sdiv 1000000 \<le> 0 \<and> r \<le> 0 \<and> - 1000000 < r)"
proof (cases "0 \<le> k")
  case True
  have d: "0 \<le> k div 1000000" using True by (simp add: pos_imp_zdiv_nonneg_iff)
  have r: "0 \<le> k mod 1000000" "k mod 1000000 < 1000000" by simp_all
  have e: "k = k div 1000000 * 1000000 + k mod 1000000" by simp
  have s: "k sdiv 1000000 = k div 1000000" using True by (simp add: sdiv_million)
  show ?thesis
    unfolding s using True d r e by (intro exI [of _ "k mod 1000000"]) simp
next
  case False
  define m where "m = - k"
  have m: "0 < m" using False by (simp add: m_def)
  have d: "0 \<le> m div 1000000" using m by (simp add: pos_imp_zdiv_nonneg_iff)
  have r: "0 \<le> m mod 1000000" "m mod 1000000 < 1000000" by simp_all
  have e: "m = m div 1000000 * 1000000 + m mod 1000000" by simp
  have s: "k sdiv 1000000 = - (m div 1000000)" using False by (simp add: sdiv_million m_def)
  have k: "k = - (m div 1000000) * 1000000 + - (m mod 1000000)"
    using e unfolding m_def by linarith
  show ?thesis
    unfolding s using False d r k by (intro exI [of _ "- (m mod 1000000)"]) simp
qed

text \<open>A 32-bit product or difference whose exact value fits is that value.\<close>

lemma sint_mult_exact:
  fixes a b :: c_int
  assumes "- 2147483648 \<le> sint a * sint b" and "sint a * sint b < 2147483648"
  shows "sint (a * b) = sint a * sint b"
  using assms by (simp add: sint_word_mult signed_take_bit_int_eq_self)

lemma sint_diff_exact:
  fixes a b :: c_int
  assumes "- 2147483648 \<le> sint a - sint b" and "sint a - sint b < 2147483648"
  shows "sint (a - b) = sint a - sint b"
  using assms by (simp add: sint_word_diff signed_take_bit_int_eq_self)

text \<open>
  No step of the computation of the two fields overflows 32 bits, for any argument: the
  quotient lies within \<open>\<plusminus>2147\<close>, its product with a million within \<open>\<plusminus>2147000000\<close>, the
  remainder within \<open>\<plusminus>999999\<close> and the nanoseconds within \<open>\<plusminus>999999000\<close>.
\<close>

lemma timeSpec_arith:
  fixes t :: c_int
  defines "sec \<equiv> c_div t 1000000"
  defines "nsec \<equiv> (t - sec * 1000000) * 1000"
  shows "sint sec = sint t sdiv 1000000"
    and "sint nsec = (sint t - sint sec * 1000000) * 1000"
    and "sint sec * 1000000000 + sint nsec = sint t * 1000"
    and "sint t < 0 \<Longrightarrow> sint sec \<le> 0 \<and> sint nsec \<le> 0"
    and "0 \<le> sint t \<Longrightarrow> 0 \<le> sint sec \<and> 0 \<le> sint nsec \<and> sint nsec < 1000000000"
proof -
  have lo: "- 2147483648 \<le> sint t" using sint_ge [of t] by simp
  have hi: "sint t < 2147483648" using sint_lt [of t] by simp
  define q where "q = sint t sdiv 1000000"
  obtain r where k: "sint t = q * 1000000 + r"
    and pn: "if 0 \<le> sint t then 0 \<le> q \<and> 0 \<le> r \<and> r < 1000000
             else q \<le> 0 \<and> r \<le> 0 \<and> - 1000000 < r"
    unfolding q_def using sdiv_million_split [of "sint t"] by blast
  have q: "sint t sdiv 1000000 = q" by (simp add: q_def)
  have pos: "0 \<le> sint t \<Longrightarrow> 0 \<le> q \<and> 0 \<le> r \<and> r < 1000000" using pn by simp
  have neg: "sint t < 0 \<Longrightarrow> q \<le> 0 \<and> r \<le> 0 \<and> - 1000000 < r" using pn by simp
  have r: "- 1000000 < r" "r < 1000000" using pos neg by linarith+
  have qb: "- 2147 \<le> q \<and> q \<le> 2147"
  proof (cases "0 \<le> sint t")
    case True
    then show ?thesis using pos hi k by linarith
  next
    case False
    then show ?thesis using neg lo k by linarith
  qed
  have sec: "sint sec = q"
    using qb by (simp add: sec_def c_div_def q sint_sbintrunc' signed_take_bit_int_eq_self)
  have mul: "sint (sec * 1000000) = q * 1000000"
    using qb sint_mult_exact [of sec 1000000] by (simp add: sec)
  have sub: "sint (t - sec * 1000000) = r"
    using r k sint_diff_exact [of t "sec * 1000000"] by (simp add: mul)
  have ns: "sint nsec = r * 1000"
    unfolding nsec_def using r sint_mult_exact [of "t - sec * 1000000" 1000] by (simp add: sub)
  show "sint sec = sint t sdiv 1000000" by (simp add: sec q)
  show "sint nsec = (sint t - sint sec * 1000000) * 1000" using k by (simp add: ns sec)
  show "sint sec * 1000000000 + sint nsec = sint t * 1000" using k by (simp add: ns sec)
  show "sint t < 0 \<Longrightarrow> sint sec \<le> 0 \<and> sint nsec \<le> 0" using neg by (simp add: ns sec)
  show "0 \<le> sint t \<Longrightarrow> 0 \<le> sint sec \<and> 0 \<le> sint nsec \<and> sint nsec < 1000000000"
    using pos by (simp add: ns sec)
qed

text \<open>
  Claim C9. For every \<^verbatim>\<open>int\<close> \<open>t\<close> passed to \<open>WaitTimeout\<close> on an object whose handle is
  set, there is one \<^verbatim>\<open>timespec\<close> \<open>ts\<close>, the argument of the call of \<^verbatim>\<open>sem_timedwait\<close> that
  ends the log, with \<open>tv_sec = t / 1000000\<close> (truncated towards zero),
  \<open>tv_nsec = (t - tv_sec * 1000000) * 1000\<close> and so \<open>tv_sec * 10\<^sup>9 + tv_nsec = t * 1000\<close>
  exactly. A negative \<open>t\<close> is not turned away: both fields are then at most 0, the
  \<^verbatim>\<open>timespec\<close> goes to \<^verbatim>\<open>sem_timedwait\<close> all the same, and the status returned is the
  translation of what \<^verbatim>\<open>sem_timedwait\<close> returned.
\<close>

theorem WaitTimeout_timeSpec:
  assumes "mSemaphore this = Some a"
  shows "\<exists>ts.
     WaitTimeout tr t this w = (tr (fst (sem_timedwait a ts w)), snd (sem_timedwait a ts w)) \<and>
     last (trace (snd (WaitTimeout tr t this w))) = CallSemTimedWait a ts \<and>
     sint (tv_sec ts) = sint t sdiv 1000000 \<and>
     sint (tv_nsec ts) = (sint t - sint (tv_sec ts) * 1000000) * 1000 \<and>
     sint (tv_sec ts) * 1000000000 + sint (tv_nsec ts) = sint t * 1000 \<and>
     (sint t < 0 \<longrightarrow> sint (tv_sec ts) \<le> 0 \<and> sint (tv_nsec ts) \<le> 0)"
proof -
  let ?ts = "\<lparr>tv_sec = c_div t 1000000, tv_nsec = (t - c_div t 1000000 * 1000000) * 1000\<rparr>"
  have run: "WaitTimeout tr t this w =
      (tr (fst (sem_timedwait a ?ts w)), snd (sem_timedwait a ?ts w))"
    using assms by (simp add: WaitTimeout_def Let_def split: prod.split)
  have logged: "last (trace (snd (sem_timedwait a ?ts w))) = CallSemTimedWait a ?ts"
    by (simp add: sem_timedwait_def called_def split: option.split sem_t.split)
  show ?thesis
    using run logged timeSpec_arith [of t] by (intro exI [of _ ?ts]) simp
qed

theorem WaitTimeout_timeSpec_witness:
  "mSemaphore \<lparr>mSemaphore = Some 1\<rparr> = Some 1 \<and> sint (- 1500000 :: c_int) < 0 \<and>
   (\<exists>ts. WaitTimeout (\<lambda>rc. rc) (- 1500000) \<lparr>mSemaphore = Some 1\<rparr>
            (world0\<lparr>heap := [1 \<mapsto> Sem 0]\<rparr>) =
      (fst (sem_timedwait 1 ts (world0\<lparr>heap := [1 \<mapsto> Sem 0]\<rparr>)),
       snd (sem_timedwait 1 ts (world0\<lparr>heap := [1 \<mapsto> Sem 0]\<rparr>))) \<and>
      sint (tv_sec ts) = - 1 \<and> sint (tv_nsec ts) = - 500000000)"
proof -
  have s: "sint (- 1500000 :: c_int) = - 1500000" by simp
  have d: "(- 1500000 :: int) sdiv 1000000 = - 1" by (simp add: signed_divide_int_def)
  show ?thesis
    using WaitTimeout_timeSpec [of "\<lparr>mSemaphore = Some 1\<rparr>" 1 "\<lambda>rc. rc" "- 1500000"
        "world0\<lparr>heap := [1 \<mapsto> Sem 0]\<rparr>"]
    unfolding s d by auto
qed

text \<open>
  Claim C1. \<open>WaitTimeout\<close> should pass to \<^verbatim>\<open>sem_timedwait\<close> the absolute deadline, the
  current clock plus the duration. The code at \<^verbatim>\<open>WaitTimeout(5000000)\<close> on a ready
  semaphore with count 0, the clock at 1 700 000 000 s: the \<^verbatim>\<open>timespec\<close> passed is
  5 s and 0 ns, the duration itself, which \<^verbatim>\<open>sem_timedwait\<close> reads as 5 s after the
  Epoch and not as 1 700 000 005 s; the deadline is long past, so the call fails at once
  and the clock has not moved.
\<close>

theorem WaitTimeout_passes_duration_as_deadline:
  "WaitTimeout tr 5000000 \<lparr>mSemaphore = Some 1\<rparr> (world0\<lparr>heap := [1 \<mapsto> Sem 0]\<rparr>) =
     (tr (- 1),
      called (CallSemTimedWait 1 \<lparr>tv_sec = 5, tv_nsec = 0\<rparr>) (world0\<lparr>heap := [1 \<mapsto> Sem 0]\<rparr>)) \<and>
   deadline_ns \<lparr>tv_sec = 5, tv_nsec = 0\<rparr> = 5000000000 \<and>
   clock (world0\<lparr>heap := [1 \<mapsto> Sem 0]\<rparr>) + 5000000 * 1000 = 1700000005000000000"
  by (simp add: WaitTimeout_def native_defs world0_def c_div_def deadline_ns_def
      signed_divide_int_def)

end
